theory Spec2Isabelle
  imports Main "HOL-Library.Word"
begin

section \<open>JavaScript values\<close>

text \<open>
  A JavaScript string is a sequence of UTF-16 code units. \<open>js\<close> turns an ASCII literal
  into such a sequence; a character outside ASCII is written as its code unit
  (the em dash of one of the messages below is \<open>0x2014\<close>).
\<close>

type_synonym jsstring = "16 word list"

definition js :: "string \<Rightarrow> jsstring" where
  "js cs = map of_char cs"

text \<open>
  The values the front end handles: what \<open>JSON.parse\<close> can produce, and \<open>undefined\<close>
  (a missing property). A number is kept as its rendering by \<open>Number::toString\<close>
  (\<open>5\<close> is \<open>Num (js ''5'')\<close>, both zeros are \<open>Num (js ''0'')\<close>): the program observes
  a number only through its truthiness and its conversion to a string. An object is the
  list of its own properties.
\<close>

datatype jsval =
    Undefined
  | Null
  | Bool bool
  | Num jsstring
  | Str jsstring
  | Arr "jsval list"
  | Obj "(jsstring \<times> jsval) list"

text \<open>
  Exceptions. \<open>Error m\<close> is \<open>new Error(m)\<close> of the program; \<open>TypeError c\<close> is raised by the
  engine on an operation of the program, with an engine-defined message;
  \<open>PlatformError m\<close> is a rejection of \<open>fetch\<close> or of \<open>response.json()\<close>, with its message.
\<close>

datatype type_error = NullProperty | NotCallable | NotPrimitive

datatype exn = Error jsstring | TypeError type_error | PlatformError jsstring

text \<open>\<open>err.message\<close>; \<open>tm\<close> is the text the engine gives each of its type errors.\<close>

fun message :: "(type_error \<Rightarrow> jsstring) \<Rightarrow> exn \<Rightarrow> jsstring" where
  "message tm (Error m) = m"
| "message tm (TypeError c) = tm c"
| "message tm (PlatformError m) = m"

text \<open>Truthiness, as \<open>!v\<close> and \<open>v || w\<close> test it.\<close>

fun truthy :: "jsval \<Rightarrow> bool" where
  "truthy Undefined = False"
| "truthy Null = False"
| "truthy (Bool b) = b"
| "truthy (Num t) = (if t = js ''0'' then False else if t = js ''NaN'' then False else True)"
| "truthy (Str t) = (if t = [] then False else True)"
| "truthy (Arr xs) = True"
| "truthy (Obj kvs) = True"

text \<open>\<open>a || b\<close>\<close>

definition lor :: "jsval \<Rightarrow> jsval \<Rightarrow> jsval" where
  "lor a b = (if truthy a then a else b)"

text \<open>
  \<open>v.k\<close> for the property names the program reads (\<open>detail\<close>, \<open>log\<close>, \<open>summary\<close>,
  \<open>email_draft\<close>): none of them is defined by a prototype, so the value is the own
  property of an object and \<open>undefined\<close> on anything else; reading a property of
  \<open>null\<close> or \<open>undefined\<close> raises.
\<close>

fun get_field :: "jsval \<Rightarrow> jsstring \<Rightarrow> exn + jsval" where
  "get_field Undefined k = Inl (TypeError NullProperty)"
| "get_field Null k = Inl (TypeError NullProperty)"
| "get_field (Obj kvs) k = Inr (case map_of kvs k of None \<Rightarrow> Undefined | Some v \<Rightarrow> v)"
| "get_field (Bool b) k = Inr Undefined"
| "get_field (Num t) k = Inr Undefined"
| "get_field (Str t) k = Inr Undefined"
| "get_field (Arr xs) k = Inr Undefined"

text \<open>
  \<open>String(v)\<close>, the conversion \<open>new Error(v)\<close> applies to its argument. An array joins
  its elements with commas, \<open>null\<close> and \<open>undefined\<close> elements giving the empty string.
  A parsed object inherits \<open>Object.prototype.toString\<close> unless it has an own property
  \<open>toString\<close>, which is then not callable and leaves no way to a primitive.
\<close>

fun to_string :: "jsval \<Rightarrow> exn + jsstring"
  and join_elems :: "jsval list \<Rightarrow> exn + jsstring" where
  "to_string Undefined = Inr (js ''undefined'')"
| "to_string Null = Inr (js ''null'')"
| "to_string (Bool b) = Inr (if b then js ''true'' else js ''false'')"
| "to_string (Num t) = Inr t"
| "to_string (Str t) = Inr t"
| "to_string (Arr xs) = join_elems xs"
| "to_string (Obj kvs) =
     (if js ''toString'' \<in> set (map fst kvs) then Inl (TypeError NotPrimitive)
      else Inr (js ''[object Object]''))"
| "join_elems [] = Inr []"
| "join_elems (x # xs) =
     (case (if x = Undefined \<or> x = Null then Inr [] else to_string x) of
        Inl e \<Rightarrow> Inl e
      | Inr t \<Rightarrow>
          (if xs = [] then Inr t
           else (case join_elems xs of Inl e \<Rightarrow> Inl e | Inr r \<Rightarrow> Inr (t @ js '','' @ r))))"

text \<open>
  \<open>String.prototype.trim\<close>: white space and line terminators of ECMAScript, as code units.
\<close>

definition is_ws :: "16 word \<Rightarrow> bool" where
  "is_ws c = (c \<in> set [0x9, 0xA, 0xB, 0xC, 0xD, 0x20, 0xA0, 0x1680,
     0x2000, 0x2001, 0x2002, 0x2003, 0x2004, 0x2005, 0x2006, 0x2007, 0x2008, 0x2009, 0x200A,
     0x2028, 0x2029, 0x202F, 0x205F, 0x3000, 0xFEFF])"

definition trim :: "jsstring \<Rightarrow> jsstring" where
  "trim t = rev (dropWhile is_ws (rev (dropWhile is_ws t)))"

text \<open>\<open>v.trim()\<close>: only a string has the method.\<close>

fun call_trim :: "jsval \<Rightarrow> exn + jsstring" where
  "call_trim (Str t) = Inr (trim t)"
| "call_trim Undefined = Inl (TypeError NullProperty)"
| "call_trim Null = Inl (TypeError NullProperty)"
| "call_trim (Bool b) = Inl (TypeError NotCallable)"
| "call_trim (Num t) = Inl (TypeError NotCallable)"
| "call_trim (Arr xs) = Inl (TypeError NotCallable)"
| "call_trim (Obj kvs) = Inl (TypeError NotCallable)"

section \<open>api.js\<close>

text \<open>
  What \<open>await fetch(...)\<close> gives: a rejection, or a response with its \<open>ok\<close> flag and
  the outcome of \<open>response.json()\<close> (the parsed body, or the parser's rejection).
\<close>

record response =
  ok :: bool
  json :: "exn + jsval"

text \<open>
  \<open>runAgent\<close>, on the outcome of its \<open>fetch\<close>. The payload only shapes the request.
\<close>

definition runAgent :: "exn + response \<Rightarrow> exn + jsval" where
  "runAgent fetched =
     (case fetched of
        Inl e \<Rightarrow> Inl e
      | Inr response \<Rightarrow>
          if \<not> ok response then
            (let detail0 = Str (js ''Failed to reach agent.'');
                 detail =
                   (case json response of
                      Inl err \<Rightarrow> detail0
                    | Inr data \<Rightarrow>
                        (case get_field data (js ''detail'') of
                           Inl err \<Rightarrow> detail0
                         | Inr d \<Rightarrow> lor d detail0))
             in case to_string detail of Inl e \<Rightarrow> Inl e | Inr m \<Rightarrow> Inl (Error m))
          else json response)"

section \<open>App.jsx\<close>

record form_data =
  company :: jsstring
  url :: jsstring
  provider :: jsstring
  model :: jsstring

definition initialForm :: form_data where
  "initialForm = \<lparr>company = js ''Acme Corp'', url = [], provider = js ''openai'',
     model = js ''gpt-4o-mini''\<rparr>"

text \<open>The state of \<open>App\<close>: one field for each \<open>useState\<close>.\<close>

record state =
  form :: form_data
  logLines :: jsval
  summary :: jsval
  emailDraft :: jsval
  status :: jsstring
  error :: jsstring
  sendMessage :: jsstring
  isSubmitting :: bool

definition initialState :: state where
  "initialState = \<lparr>form = initialForm, logLines = Arr [], summary = Str [],
     emailDraft = Str [], status = js ''idle'', error = [], sendMessage = [],
     isSubmitting = False\<rparr>"

text \<open>\<open>handleChange\<close>: the four inputs of the form are named after its fields.\<close>

datatype field = Company | Url | Provider | Model

fun handleChange :: "field \<Rightarrow> jsstring \<Rightarrow> state \<Rightarrow> state" where
  "handleChange Company v s = s\<lparr>form := (form s)\<lparr>company := v\<rparr>\<rparr>"
| "handleChange Url v s = s\<lparr>form := (form s)\<lparr>url := v\<rparr>\<rparr>"
| "handleChange Provider v s = s\<lparr>form := (form s)\<lparr>provider := v\<rparr>\<rparr>"
| "handleChange Model v s = s\<lparr>form := (form s)\<lparr>model := v\<rparr>\<rparr>"

text \<open>
  \<open>handleSubmit\<close> runs in two parts, with the event loop in between: up to
  \<open>await runAgent(form)\<close>, and from the settling of that promise on.
\<close>

definition handleSubmit_begin :: "state \<Rightarrow> state" where
  "handleSubmit_begin s =
     s\<lparr>isSubmitting := True, error := [], status := js ''running'', sendMessage := [],
       summary := Str [], emailDraft := Str [], logLines := Arr []\<rparr>"

text \<open>
  The \<open>try\<close> block after the \<open>await\<close>: the state as far as the setters got, and the
  exception that ended the block, if any.
\<close>

definition handleSubmit_try :: "exn + jsval \<Rightarrow> state \<Rightarrow> state \<times> exn option" where
  "handleSubmit_try r s =
     (case r of
        Inl e \<Rightarrow> (s, Some e)
      | Inr result \<Rightarrow>
          (case get_field result (js ''log'') of
             Inl e \<Rightarrow> (s, Some e)
           | Inr lg \<Rightarrow>
               (let s1 = s\<lparr>logLines := lor lg (Arr [])\<rparr> in
                case get_field result (js ''summary'') of
                  Inl e \<Rightarrow> (s1, Some e)
                | Inr sm \<Rightarrow>
                    (let s2 = s1\<lparr>summary := lor sm (Str [])\<rparr> in
                     case get_field result (js ''email_draft'') of
                       Inl e \<Rightarrow> (s2, Some e)
                     | Inr ed \<Rightarrow>
                         (s2\<lparr>emailDraft := lor ed (Str []), status := js ''ready''\<rparr>,
                          None)))))"

text \<open>The \<open>catch\<close> and \<open>finally\<close> blocks.\<close>

definition handleSubmit_settle ::
  "(type_error \<Rightarrow> jsstring) \<Rightarrow> exn + jsval \<Rightarrow> state \<Rightarrow> state" where
  "handleSubmit_settle tm r s =
     (case handleSubmit_try r s of
        (s', None) \<Rightarrow> s'\<lparr>isSubmitting := False\<rparr>
      | (s', Some err) \<Rightarrow>
          s'\<lparr>error := (if message tm err = [] then js ''Failed to run agent.''
                         else message tm err),
             status := js ''idle'', isSubmitting := False\<rparr>)"

text \<open>\<open>handleSubmit\<close> with nothing happening while the request is in flight.\<close>

definition handleSubmit :: "(type_error \<Rightarrow> jsstring) \<Rightarrow> exn + response \<Rightarrow> state \<Rightarrow> state" where
  "handleSubmit tm fetched s = handleSubmit_settle tm (runAgent fetched) (handleSubmit_begin s)"

definition nothing_to_send :: jsstring where
  "nothing_to_send = js ''Nothing to send'' @ [0x2014] @ js ''please run the agent first.''"

definition mock_send_complete :: jsstring where
  "mock_send_complete = js ''Mock send complete. (Hook your email API here.)''"

definition handleSend :: "state \<Rightarrow> exn + state" where
  "handleSend s =
     (case call_trim (emailDraft s) of
        Inl e \<Rightarrow> Inl e
      | Inr t \<Rightarrow>
          if t = [] then Inr (s\<lparr>sendMessage := nothing_to_send\<rparr>)
          else Inr (s\<lparr>sendMessage := mock_send_complete, status := js ''sent''\<rparr>))"

text \<open>
  \<open>handleDownload\<close> builds a file and hands it to the browser; it calls no setter.
\<close>

definition handleDownload :: "state \<Rightarrow> state" where
  "handleDownload s = s"

text \<open>\<open>onChange\<close> of the draft's text area.\<close>

definition editDraft :: "jsstring \<Rightarrow> state \<Rightarrow> state" where
  "editDraft v s = s\<lparr>emailDraft := Str v\<rparr>"

subsection \<open>The page: what the operator and the network can do\<close>

text \<open>
  Submitting the form. The submit button is disabled while \<open>isSubmitting\<close>; the company
  input is \<open>required\<close> and the homepage input has \<open>type="url"\<close>, so the browser dispatches
  the submit event only when the company is not empty and the homepage is empty or a
  valid URL (\<open>vu\<close> is the browser's test). \<open>None\<close>: \<open>handleSubmit\<close> is not called.
\<close>

definition checkValidity :: "(jsstring \<Rightarrow> bool) \<Rightarrow> form_data \<Rightarrow> bool" where
  "checkValidity vu f =
     (if company f = [] then False else if url f = [] then True else vu (url f))"

definition submitForm :: "(jsstring \<Rightarrow> bool) \<Rightarrow> state \<Rightarrow> state option" where
  "submitForm vu s =
     (if isSubmitting s then None
      else if checkValidity vu (form s) then Some (handleSubmit_begin s)
      else None)"

datatype event =
    Change field jsstring
  | Reset
  | Submit
  | Settle "exn + response"
  | EditDraft jsstring
  | Send
  | Download

text \<open>
  One event. A button that is disabled does nothing; an exception that leaves an event
  handler leaves the state as it was; a request settles only while one is in flight.
\<close>

fun step :: "(jsstring \<Rightarrow> bool) \<Rightarrow> (type_error \<Rightarrow> jsstring) \<Rightarrow> event \<Rightarrow> state \<Rightarrow> state" where
  "step vu tm (Change f v) s = handleChange f v s"
| "step vu tm Reset s = s\<lparr>form := initialForm\<rparr>"
| "step vu tm Submit s = (case submitForm vu s of None \<Rightarrow> s | Some s' \<Rightarrow> s')"
| "step vu tm (Settle fetched) s =
     (if isSubmitting s then handleSubmit_settle tm (runAgent fetched) s else s)"
| "step vu tm (EditDraft v) s = editDraft v s"
| "step vu tm Send s =
     (if truthy (emailDraft s) then (case handleSend s of Inl e \<Rightarrow> s | Inr s' \<Rightarrow> s') else s)"
| "step vu tm Download s =
     (if truthy (summary s) then handleDownload s
      else if truthy (emailDraft s) then handleDownload s else s)"

fun run_events :: "(jsstring \<Rightarrow> bool) \<Rightarrow> (type_error \<Rightarrow> jsstring) \<Rightarrow> event list \<Rightarrow> state \<Rightarrow> state" where
  "run_events vu tm [] s = s"
| "run_events vu tm (e # es) s = run_events vu tm es (step vu tm e s)"

subsection \<open>Sample inputs\<close>

text \<open>An engine's texts for its type errors, and a browser that accepts every homepage.\<close>

definition v8_text :: "type_error \<Rightarrow> jsstring" where
  "v8_text c =
     (case c of
        NullProperty \<Rightarrow> js ''Cannot read properties of null (reading 'log')''
      | NotCallable \<Rightarrow> js ''emailDraft.trim is not a function''
      | NotPrimitive \<Rightarrow> js ''Cannot convert object to primitive value'')"

definition any_url :: "jsstring \<Rightarrow> bool" where
  "any_url u = True"

text \<open>A response of a run that went through, and one of a run that failed half way.\<close>

definition good_response :: response where
  "good_response = \<lparr>ok = True, json = Inr (Obj [
     (js ''log'', Arr [Str (js ''Searching for company news...'')]),
     (js ''summary'', Str (js ''Acme builds widgets.'')),
     (js ''email_draft'', Str (js ''Hi Acme''))])\<rparr>"

definition failed_response :: response where
  "failed_response = \<lparr>ok = False, json = Inr (Obj [
     (js ''detail'', Str (js ''LLM unavailable'')),
     (js ''log'', Arr [Str (js ''Searching for company news...'')]),
     (js ''summary'', Str (js ''Acme builds widgets.''))])\<rparr>"

text \<open>
  The \<open>detail\<close> that \<open>runAgent\<close> can use: the body parsed to an object that holds a
  truthy \<open>detail\<close>.
\<close>

definition usable_detail :: "exn + jsval \<Rightarrow> jsval option" where
  "usable_detail body =
     (case body of
        Inl err \<Rightarrow> None
      | Inr data \<Rightarrow>
          (case data of
             Obj kvs \<Rightarrow>
               (case map_of kvs (js ''detail'') of
                  None \<Rightarrow> None
                | Some d \<Rightarrow> if truthy d then Some d else None)
           | _ \<Rightarrow> None))"

text \<open>
  When \<open>runAgent\<close> raises, and what: a rejection of \<open>fetch\<close> or, on an ok response, of
  \<open>response.json()\<close>; on a response that is not ok, the \<open>Error\<close> made from the usable
  \<open>detail\<close> or from the fixed text, or the type error of a \<open>detail\<close> that has no string
  conversion. \<open>None\<close>: it returns.
\<close>

definition failure_of :: "exn + response \<Rightarrow> exn option" where
  "failure_of fetched =
     (case fetched of
        Inl x \<Rightarrow> Some x
      | Inr r \<Rightarrow>
          if ok r then (case json r of Inl x \<Rightarrow> Some x | Inr v \<Rightarrow> None)
          else
            (case usable_detail (json r) of
               None \<Rightarrow> Some (Error (js ''Failed to reach agent.''))
             | Some d \<Rightarrow>
                 (case to_string d of
                    Inl x \<Rightarrow> Some (TypeError NotPrimitive)
                  | Inr m \<Rightarrow> Some (Error m))))"

text \<open>
  Three more responses: a validation error as FastAPI reports it (status 422, \<open>detail\<close> a
  list of objects); an error whose \<open>detail\<close> is an object with a property \<open>toString\<close>; and
  an ok response whose body is an HTML page, on which \<open>response.json()\<close> rejects.
\<close>

definition validation_response :: response where
  "validation_response = \<lparr>ok = False, json = Inr (Obj [
     (js ''detail'', Arr [Obj [
        (js ''loc'', Arr [Str (js ''body''), Str (js ''company'')]),
        (js ''msg'', Str (js ''field required'')),
        (js ''type'', Str (js ''value_error.missing''))]])])\<rparr>"

definition unconvertible_response :: response where
  "unconvertible_response = \<lparr>ok = False, json = Inr (Obj [
     (js ''detail'', Obj [(js ''toString'', Num (js ''1''))])])\<rparr>"

definition html_response :: response where
  "html_response = \<lparr>ok = True,
     json = Inl (PlatformError (js ''Unexpected token < in JSON at position 0''))\<rparr>"

section \<open>The workflow core behind the API\<close>

text \<open>
  The front end is the only caller of the workflow under \<open>/api/run\<close>; the workflow
  itself (\<open>src/main.py\<close> and \<open>src/server.py\<close> of the README) is not among the sources
  at hand. Its approval gate, send stage and context accumulator are written down here
  from the specification.
\<close>

text \<open>
  Modelled from the spec: the stages of the workflow controller's state machine
  (section 4.1), which lives in the absent \<open>src/main.py\<close>.
\<close>

datatype stage =
  Idle | Searching | Scraping | Drafting | AwaitingApproval | Sending | Sent | Rejected | Failed

text \<open>Modelled from the spec: the \<open>outcome\<close> of a \<open>WorkflowRun\<close> (section 3).\<close>

datatype outcome = pending | approved | rejected | failed

text \<open>
  Modelled from the spec: the \<open>WorkflowRun\<close> of section 3, without the input and the
  research context, which the approval gate and the send stage do not read.
  \<open>delivered\<close> records what the send stage handed to the (mock) delivery, so that an
  invocation of the stage can be observed.
\<close>

record WorkflowRun =
  run_stage :: stage
  run_summary :: "string option"
  run_emailDraft :: "string option"
  traceLog :: "string list"
  run_outcome :: outcome
  delivered :: "string list"

text \<open>Modelled from the spec: the \<open>ApprovalDecision\<close> of section 3.\<close>

record ApprovalDecision =
  is_approved :: bool
  editedEmailDraft :: "string option"

text \<open>
  Modelled from the spec: the send stage of section 4.7 (absent \<open>src/main.py\<close>): it
  delivers the draft and moves to \<open>Sent\<close>, and is a no-op on a run that is \<open>Sent\<close>.
  \<open>line\<close> gives the trace line of a transition; the specification fixes no texts.
\<close>

definition send_stage :: "(stage \<Rightarrow> string) \<Rightarrow> WorkflowRun \<Rightarrow> WorkflowRun" where
  "send_stage line r =
     (if run_stage r = Sent then r
      else r\<lparr>delivered := delivered r @ (case run_emailDraft r of None \<Rightarrow> [] | Some d \<Rightarrow> [d]),
             traceLog := traceLog r @ [line Sent],
             run_stage := Sent\<rparr>)"

text \<open>
  Modelled from the spec: the approval gate of section 4.6 (absent \<open>src/main.py\<close>).
  A decision reaches a run only while it awaits approval. Approved: an edited draft,
  if supplied, replaces the draft, and the run proceeds to the send stage. Not approved:
  the run becomes \<open>Rejected\<close> and the send stage is not invoked.
\<close>

definition deliver_decision ::
  "(stage \<Rightarrow> string) \<Rightarrow> ApprovalDecision \<Rightarrow> WorkflowRun \<Rightarrow> WorkflowRun" where
  "deliver_decision line d r =
     (if run_stage r = AwaitingApproval then
        (if is_approved d then
           send_stage line
             (r\<lparr>run_emailDraft :=
                   (case editedEmailDraft d of None \<Rightarrow> run_emailDraft r | Some t \<Rightarrow> Some t),
                run_outcome := approved,
                traceLog := traceLog r @ [line Sending],
                run_stage := Sending\<rparr>)
         else r\<lparr>run_outcome := rejected, traceLog := traceLog r @ [line Rejected],
                run_stage := Rejected\<rparr>)
      else r)"

text \<open>
  Modelled from the spec: the \<open>ResearchContext\<close> of section 3, labels with their texts
  in insertion order, and \<open>append\<close> of section 4.2 (absent \<open>src/main.py\<close>), which
  overwrites the entry of a label that is already there.
\<close>

type_synonym ResearchContext = "(string \<times> string) list"

fun append_entry :: "string \<Rightarrow> string \<Rightarrow> ResearchContext \<Rightarrow> ResearchContext" where
  "append_entry l t [] = [(l, t)]"
| "append_entry l t ((k, v) # ctx) =
     (if k = l then (k, t) # ctx else (k, v) # append_entry l t ctx)"

text \<open>
  Modelled from the spec: \<open>renderForPrompt\<close> of section 4.2 (absent \<open>src/main.py\<close>):
  the entries in insertion order, each under its label's header and cut to its budget.
  The specification fixes neither the headers nor the budgets: both are parameters.
\<close>

fun render_entry ::
  "(string \<Rightarrow> string) \<Rightarrow> (string \<Rightarrow> nat) \<Rightarrow> string \<times> string \<Rightarrow> string" where
  "render_entry header budget (l, t) = header l @ take (budget l) t"

definition renderForPrompt ::
  "(string \<Rightarrow> string) \<Rightarrow> (string \<Rightarrow> nat) \<Rightarrow> ResearchContext \<Rightarrow> string" where
  "renderForPrompt header budget ctx = concat (map (render_entry header budget) ctx)"

text \<open>
  Modelled from the spec: the merge of the search stage (sections 4.3 and 5, absent
  \<open>src/main.py\<close>). \<open>completed\<close> lists the queries that succeeded with their text, in
  the order in which they completed; the stage appends the news query's text first and
  the overview query's text second, and nothing for a query that failed.
\<close>

datatype query = NewsQuery | OverviewQuery

fun query_label :: "query \<Rightarrow> string" where
  "query_label NewsQuery = ''search:news''"
| "query_label OverviewQuery = ''search:about''"

definition merge_query ::
  "(query \<times> string) list \<Rightarrow> query \<Rightarrow> ResearchContext \<Rightarrow> ResearchContext" where
  "merge_query completed q ctx =
     (case map_of completed q of None \<Rightarrow> ctx | Some t \<Rightarrow> append_entry (query_label q) t ctx)"

definition search_stage :: "(query \<times> string) list \<Rightarrow> ResearchContext \<Rightarrow> ResearchContext" where
  "search_stage completed ctx =
     merge_query completed OverviewQuery (merge_query completed NewsQuery ctx)"

text \<open>A run that awaits approval, and trace lines.\<close>

definition awaiting_run :: WorkflowRun where
  "awaiting_run = \<lparr>run_stage = AwaitingApproval, run_summary = Some ''Acme builds widgets.'',
     run_emailDraft = Some ''Hi Acme Corp'', traceLog = [''Drafted email''],
     run_outcome = pending, delivered = []\<rparr>"

definition stage_line :: "stage \<Rightarrow> string" where
  "stage_line st =
     (case st of
        Sending \<Rightarrow> ''Sending...''
      | Sent \<Rightarrow> ''Mock send complete''
      | Rejected \<Rightarrow> ''Rejected by the operator''
      | _ \<Rightarrow> ''-'')"

section \<open>Facts about the handlers\<close>

lemma call_trim_Inr: "call_trim v = Inr t \<Longrightarrow> \<exists>u. v = Str u \<and> t = trim u"
  by (cases v) auto

lemma handleSend_Inr:
  assumes "handleSend s = Inr s'"
  shows "\<exists>t. emailDraft s = Str t \<and>
     s' = (if trim t = [] then s\<lparr>sendMessage := nothing_to_send\<rparr>
           else s\<lparr>sendMessage := mock_send_complete, status := js ''sent''\<rparr>)"
proof -
  from assms obtain u where u: "call_trim (emailDraft s) = Inr u"
    by (auto simp: handleSend_def split: sum.splits)
  then obtain t where t: "emailDraft s = Str t" "u = trim t"
    using call_trim_Inr by blast
  with assms show ?thesis
    by (auto simp: handleSend_def)
qed

lemma trim_nonempty: "trim v \<noteq> [] \<Longrightarrow> v \<noteq> []"
  by (auto simp: trim_def)

lemma run_events_append:
  "run_events vu tm (xs @ ys) s = run_events vu tm ys (run_events vu tm xs s)"
  by (induction xs arbitrary: s) auto

lemma settle_status: "status (handleSubmit_settle tm r s) \<noteq> js ''sent''"
  by (auto simp: handleSubmit_settle_def handleSubmit_try_def Let_def js_def
      split: sum.splits option.splits prod.splits)

lemma settle_failure:
  "handleSubmit_settle tm (Inl e) s =
     s\<lparr>error := (if message tm e = [] then js ''Failed to run agent.'' else message tm e),
       status := js ''idle'', isSubmitting := False\<rparr>"
  by (simp add: handleSubmit_settle_def handleSubmit_try_def)

text \<open>Only the send button with a draft that is not blank takes the status to \<open>sent\<close>.\<close>

lemma step_sent:
  assumes "status (step vu tm e s) = js ''sent''" "status s \<noteq> js ''sent''"
  shows "e = Send \<and> (\<exists>t. emailDraft s = Str t \<and> trim t \<noteq> [])"
proof (cases e)
  case (Change f v)
  with assms show ?thesis by (cases f) auto
next
  case Reset
  with assms show ?thesis by auto
next
  case Submit
  with assms show ?thesis
    by (auto simp: submitForm_def handleSubmit_begin_def js_def split: option.splits if_splits)
next
  case (Settle x)
  with assms show ?thesis using settle_status by (auto split: if_splits)
next
  case (EditDraft v)
  with assms show ?thesis by (auto simp: editDraft_def)
next
  case Send
  with assms show ?thesis
    by (auto split: if_splits sum.splits dest!: handleSend_Inr)
next
  case Download
  with assms show ?thesis by (auto simp: handleDownload_def split: if_splits)
qed

text \<open>The only way a string conversion fails.\<close>

lemma to_string_Inl:
  "to_string v = Inl x \<Longrightarrow> x = TypeError NotPrimitive"
  "join_elems vs = Inl x \<Longrightarrow> x = TypeError NotPrimitive"
  by (induction v and vs rule: to_string_join_elems.induct)
     (auto split: if_splits sum.splits)

lemma runAgent_not_ok:
  "runAgent (Inr \<lparr>ok = False, json = body\<rparr>) =
     (case usable_detail body of
        None \<Rightarrow> Inl (Error (js ''Failed to reach agent.''))
      | Some d \<Rightarrow>
          (case to_string d of
             Inl x \<Rightarrow> Inl (TypeError NotPrimitive)
           | Inr m \<Rightarrow> Inl (Error m)))"
proof (cases body)
  case (Inl err)
  then show ?thesis by (simp add: runAgent_def usable_detail_def)
next
  case (Inr data)
  then show ?thesis
    by (cases data)
       (auto simp: runAgent_def usable_detail_def lor_def split: option.splits sum.splits
             dest: to_string_Inl(1))
qed

lemma runAgent_string_detail:
  "runAgent (Inr \<lparr>ok = False, json = Inr (Obj [(js ''detail'', Str m)])\<rparr>) =
     Inl (Error (if m = [] then js ''Failed to reach agent.'' else m))"
  by (simp add: runAgent_def lor_def)

lemma runAgent_failure_of:
  "runAgent fetched = Inl e \<Longrightarrow> failure_of fetched = Some e"
proof (cases fetched)
  case (Inl x)
  assume "runAgent fetched = Inl e"
  with Inl show ?thesis by (simp add: runAgent_def failure_of_def)
next
  case (Inr r)
  assume a: "runAgent fetched = Inl e"
  obtain b body where r: "r = \<lparr>ok = b, json = body\<rparr>" by (cases r) auto
  show ?thesis
  proof (cases b)
    case True
    with a Inr r show ?thesis by (auto simp: runAgent_def failure_of_def)
  next
    case False
    with a Inr r runAgent_not_ok [of body] show ?thesis
      by (auto simp: failure_of_def split: option.splits sum.splits)
  qed
qed

text \<open>\<open>runAgent\<close> on the three sample responses.\<close>

lemma runAgent_validation:
  "runAgent (Inr validation_response) = Inl (Error (js ''[object Object]''))"
  by (simp add: runAgent_def validation_response_def lor_def Let_def) (simp add: js_def)

lemma runAgent_unconvertible:
  "runAgent (Inr unconvertible_response) = Inl (TypeError NotPrimitive)"
  by (simp add: runAgent_def unconvertible_response_def lor_def Let_def)

lemma runAgent_html:
  "runAgent (Inr html_response) =
     Inl (PlatformError (js ''Unexpected token < in JSON at position 0''))"
  by (simp add: runAgent_def html_response_def)

text \<open>The state after a first run that went through.\<close>

lemma good_run:
  "run_events any_url v8_text [Submit, Settle (Inr good_response)] initialState =
     initialState\<lparr>logLines := Arr [Str (js ''Searching for company news...'')],
       summary := Str (js ''Acme builds widgets.''), emailDraft := Str (js ''Hi Acme''),
       status := js ''ready''\<rparr>"
  by (simp add: initialState_def initialForm_def submitForm_def checkValidity_def
      handleSubmit_begin_def handleSubmit_settle_def handleSubmit_try_def runAgent_def
      good_response_def lor_def js_def Let_def)

lemma trim_Hi_Acme: "trim (js ''Hi Acme'') = js ''Hi Acme''"
  by (simp add: trim_def is_ws_def js_def)

section \<open>The approval gate of the page\<close>

text \<open>
  C1: whatever the operator and the network do, starting from a state that is not
  \<open>sent\<close>, the status is \<open>sent\<close> only if the button "Approve and mock send" was pressed
  at some point, in a state whose draft was a string with more than white space in it.
  Submitting, settling of a request, editing, resetting and downloading never lead there.
\<close>

theorem sent_only_after_approval:
  "status s0 \<noteq> js ''sent'' \<Longrightarrow> status (run_events vu tm evs s0) = js ''sent'' \<Longrightarrow>
     \<exists>pre post t. evs = pre @ Send # post \<and>
        emailDraft (run_events vu tm pre s0) = Str t \<and> trim t \<noteq> []"
proof (induction evs rule: rev_induct)
  case Nil
  then show ?case by simp
next
  case (snoc e es)
  show ?case
  proof (cases "status (run_events vu tm es s0) = js ''sent''")
    case True
    with snoc.IH snoc.prems(1) obtain pre post t where
      "es = pre @ Send # post" "emailDraft (run_events vu tm pre s0) = Str t" "trim t \<noteq> []"
      by blast
    then have "es @ [e] = pre @ Send # (post @ [e])" by simp
    with \<open>emailDraft (run_events vu tm pre s0) = Str t\<close> \<open>trim t \<noteq> []\<close> show ?thesis by blast
  next
    case False
    from snoc.prems(2) have "status (step vu tm e (run_events vu tm es s0)) = js ''sent''"
      by (simp add: run_events_append)
    from step_sent [OF this False] obtain t where
      "e = Send" "emailDraft (run_events vu tm es s0) = Str t" "trim t \<noteq> []" by blast
    then have "es @ [e] = es @ Send # []" by simp
    with \<open>emailDraft (run_events vu tm es s0) = Str t\<close> \<open>trim t \<noteq> []\<close> show ?thesis by blast
  qed
qed

theorem sent_only_after_approval_witness:
  "status initialState \<noteq> js ''sent'' \<and>
   status (run_events any_url v8_text [Submit, Settle (Inr good_response), Send] initialState)
     = js ''sent'' \<and>
   (\<exists>pre post t. [Submit, Settle (Inr good_response), Send] = pre @ Send # post \<and>
        emailDraft (run_events any_url v8_text pre initialState) = Str t \<and> trim t \<noteq> [])"
proof -
  have a: "status initialState \<noteq> js ''sent''"
    by (simp add: initialState_def js_def)
  have "run_events any_url v8_text ([Submit, Settle (Inr good_response)] @ [Send]) initialState =
      initialState\<lparr>logLines := Arr [Str (js ''Searching for company news...'')],
       summary := Str (js ''Acme builds widgets.''), emailDraft := Str (js ''Hi Acme''),
       status := js ''sent'', sendMessage := mock_send_complete\<rparr>"
    unfolding run_events_append good_run
    by (simp add: handleSend_def trim_Hi_Acme) (simp add: js_def)
  then have b: "status (run_events any_url v8_text [Submit, Settle (Inr good_response), Send]
      initialState) = js ''sent''"
    by simp
  from sent_only_after_approval [OF a b] a b show ?thesis by blast
qed

text \<open>
  C9: when the draft is the empty string or only white space, \<open>handleSend\<close> returns
  the state with the message telling the operator to run the agent first and nothing else
  changed; the status is not touched, so it does not become \<open>sent\<close>. The same holds for
  a press of the button.
\<close>

theorem handleSend_blank:
  "emailDraft s = Str t \<Longrightarrow> trim t = [] \<Longrightarrow>
     handleSend s = Inr (s\<lparr>sendMessage := nothing_to_send\<rparr>) \<and>
     status (step vu tm Send s) = status s"
  by (simp add: handleSend_def)

theorem handleSend_blank_witness:
  "emailDraft (editDraft [0x20, 0x9, 0xA] initialState) = Str [0x20, 0x9, 0xA] \<and>
   trim [0x20, 0x9, 0xA] = [] \<and>
   handleSend (editDraft [0x20, 0x9, 0xA] initialState) =
     Inr ((editDraft [0x20, 0x9, 0xA] initialState)\<lparr>sendMessage := nothing_to_send\<rparr>) \<and>
   status (step any_url v8_text Send (editDraft [0x20, 0x9, 0xA] initialState)) = js ''idle''"
proof -
  have d: "emailDraft (editDraft [0x20, 0x9, 0xA] initialState) = Str [0x20, 0x9, 0xA]"
    by (simp add: editDraft_def)
  have t: "trim [0x20, 0x9, 0xA] = []"
    by (simp add: trim_def is_ws_def)
  have i: "status (editDraft [0x20, 0x9, 0xA] initialState) = js ''idle''"
    by (simp add: editDraft_def initialState_def)
  from handleSend_blank [OF d t, of any_url v8_text] d t i show ?thesis by simp
qed

text \<open>
  C4: sending is idempotent. When \<open>handleSend\<close> has returned a state, in particular one
  that is \<open>sent\<close>, calling it again on that state returns the very same state, without
  an exception; the log is the one from before the first call. The same holds for two
  presses of the button.
\<close>

theorem handleSend_idempotent:
  "handleSend s = Inr s' \<Longrightarrow>
     handleSend s' = Inr s' \<and> logLines s' = logLines s \<and>
     step vu tm Send (step vu tm Send s) = step vu tm Send s"
proof -
  assume h: "handleSend s = Inr s'"
  from handleSend_Inr [OF h] obtain t where t: "emailDraft s = Str t"
    and s': "s' = (if trim t = [] then s\<lparr>sendMessage := nothing_to_send\<rparr>
           else s\<lparr>sendMessage := mock_send_complete, status := js ''sent''\<rparr>)" by blast
  have 1: "handleSend s' = Inr s'" using t s' by (simp add: handleSend_def)
  have 2: "logLines s' = logLines s" using s' by simp
  have 3: "step vu tm Send (step vu tm Send s) = step vu tm Send s"
  proof (cases "t = []")
    case True
    with t show ?thesis by simp
  next
    case False
    with t h have "step vu tm Send s = s'" by simp
    moreover have "emailDraft s' = Str t" using t s' by simp
    ultimately show ?thesis using False 1 by simp
  qed
  from 1 2 3 show ?thesis by simp
qed

theorem handleSend_idempotent_witness:
  "handleSend (run_events any_url v8_text [Submit, Settle (Inr good_response)] initialState) =
     Inr ((run_events any_url v8_text [Submit, Settle (Inr good_response)] initialState)
            \<lparr>sendMessage := mock_send_complete, status := js ''sent''\<rparr>) \<and>
   handleSend ((run_events any_url v8_text [Submit, Settle (Inr good_response)] initialState)
            \<lparr>sendMessage := mock_send_complete, status := js ''sent''\<rparr>) =
     Inr ((run_events any_url v8_text [Submit, Settle (Inr good_response)] initialState)
            \<lparr>sendMessage := mock_send_complete, status := js ''sent''\<rparr>)"
proof -
  have a: "handleSend
      (run_events any_url v8_text [Submit, Settle (Inr good_response)] initialState) =
     Inr ((run_events any_url v8_text [Submit, Settle (Inr good_response)] initialState)
            \<lparr>sendMessage := mock_send_complete, status := js ''sent''\<rparr>)"
    unfolding good_run
    by (simp add: handleSend_def trim_Hi_Acme) (simp add: js_def)
  from handleSend_idempotent [OF a] a show ?thesis by simp
qed

text \<open>
  C5: text typed into the draft's box replaces the draft verbatim, whatever the draft
  was; when the operator then approves (and the text is not blank), the run that becomes
  \<open>sent\<close> carries the typed text as its draft, not the earlier one.
\<close>

theorem edited_draft_sent:
  "emailDraft (editDraft v s) = Str v \<and>
   (trim v \<noteq> [] \<longrightarrow>
      handleSend (editDraft v s) =
        Inr (s\<lparr>emailDraft := Str v, sendMessage := mock_send_complete,
               status := js ''sent''\<rparr>) \<and>
      step vu tm Send (step vu tm (EditDraft v) s) =
        s\<lparr>emailDraft := Str v, sendMessage := mock_send_complete, status := js ''sent''\<rparr>)"
  using trim_nonempty [of v] by (auto simp: editDraft_def handleSend_def)

theorem edited_draft_sent_witness:
  "trim (js ''Hi Acme'') \<noteq> [] \<and>
   emailDraft (editDraft (js ''Hi Acme'') initialState) = Str (js ''Hi Acme'') \<and>
   handleSend (editDraft (js ''Hi Acme'') initialState) =
     Inr (initialState\<lparr>emailDraft := Str (js ''Hi Acme''), sendMessage := mock_send_complete,
            status := js ''sent''\<rparr>)"
proof -
  have a: "trim (js ''Hi Acme'') \<noteq> []"
    unfolding trim_Hi_Acme by (simp add: js_def)
  from edited_draft_sent [of "js ''Hi Acme''" initialState any_url v8_text] a
  show ?thesis by simp
qed

section \<open>Failed runs\<close>

text \<open>
  C8, as stated, fails: the cause the page shows is not always readable, and can be the
  raw text of a low-level exception. For a validation error (status 422, \<open>detail\<close> a list
  of objects) it shows "[object Object]"; for a \<open>detail\<close> that has no string conversion it
  shows the text of the engine's \<open>TypeError\<close>; for an ok response whose body is not JSON
  it shows the text of the parser's exception.
\<close>

theorem failed_run_shows_raw_text:
  "error (handleSubmit v8_text (Inr validation_response) initialState) =
     js ''[object Object]'' \<and>
   error (handleSubmit v8_text (Inr unconvertible_response) initialState) =
     js ''Cannot convert object to primitive value'' \<and>
   error (handleSubmit v8_text (Inr html_response) initialState) =
     js ''Unexpected token < in JSON at position 0''"
  unfolding handleSubmit_def runAgent_validation runAgent_unconvertible runAgent_html
    settle_failure
  by (simp add: v8_text_def) (simp add: js_def)

text \<open>
  C8, amended: when \<open>runAgent\<close> raises, whatever it raises, \<open>handleSubmit\<close> ends in its
  \<open>catch\<close> and \<open>finally\<close> blocks and no exception leaves it: the page is back at \<open>idle\<close>,
  no longer submitting, and shows an error text that is not empty. The text is the message
  of the exception raised, or "Failed to run agent." when that message is empty; the
  exception is the one \<open>failure_of\<close> describes: for a response that is not ok, the
  \<open>Error\<close> made from the string conversion of a truthy \<open>detail\<close> (a string \<open>detail\<close>
  verbatim) or from "Failed to reach agent."; otherwise the exception of the platform or
  of the engine itself. A \<open>null\<close> result of an ok response is caught in the same way.
\<close>

theorem failed_run_reported:
  "runAgent fetched = Inl e \<Longrightarrow>
     failure_of fetched = Some e \<and>
     handleSubmit_settle tm (runAgent fetched) s =
       s\<lparr>error := (if message tm e = [] then js ''Failed to run agent.'' else message tm e),
         status := js ''idle'', isSubmitting := False\<rparr> \<and>
     error (handleSubmit tm fetched s) =
       (if message tm e = [] then js ''Failed to run agent.'' else message tm e) \<and>
     error (handleSubmit tm fetched s) \<noteq> [] \<and>
     status (handleSubmit tm fetched s) = js ''idle'' \<and>
     isSubmitting (handleSubmit tm fetched s) = False \<and>
     error (handleSubmit tm
        (Inr \<lparr>ok = False, json = Inr (Obj [(js ''detail'', Str m)])\<rparr>) s) =
       (if m = [] then js ''Failed to reach agent.'' else m) \<and>
     handleSubmit tm (Inr \<lparr>ok = True, json = Inr Null\<rparr>) s =
       (handleSubmit_begin s)
         \<lparr>error := (if tm NullProperty = [] then js ''Failed to run agent.''
                     else tm NullProperty),
          status := js ''idle'', isSubmitting := False\<rparr>"
proof -
  assume a: "runAgent fetched = Inl e"
  have 1: "failure_of fetched = Some e" using a by (rule runAgent_failure_of)
  have 2: "error (handleSubmit tm
        (Inr \<lparr>ok = False, json = Inr (Obj [(js ''detail'', Str m)])\<rparr>) s) =
       (if m = [] then js ''Failed to reach agent.'' else m)"
    unfolding handleSubmit_def runAgent_string_detail settle_failure by (simp add: js_def)
  have 3: "handleSubmit tm (Inr \<lparr>ok = True, json = Inr Null\<rparr>) s =
       (handleSubmit_begin s)
         \<lparr>error := (if tm NullProperty = [] then js ''Failed to run agent.''
                     else tm NullProperty),
          status := js ''idle'', isSubmitting := False\<rparr>"
    by (simp add: handleSubmit_def runAgent_def handleSubmit_settle_def handleSubmit_try_def)
  from a 1 2 3 show ?thesis
    by (simp add: settle_failure handleSubmit_def js_def)
qed

theorem failed_run_reported_witness:
  "runAgent (Inr failed_response) = Inl (Error (js ''LLM unavailable'')) \<and>
   failure_of (Inr failed_response) = Some (Error (js ''LLM unavailable'')) \<and>
   error (handleSubmit v8_text (Inr failed_response) initialState) = js ''LLM unavailable'' \<and>
   status (handleSubmit v8_text (Inr failed_response) initialState) = js ''idle'' \<and>
   isSubmitting (handleSubmit v8_text (Inr failed_response) initialState) = False"
proof -
  have a: "runAgent (Inr failed_response) = Inl (Error (js ''LLM unavailable''))"
    by (simp add: runAgent_def failed_response_def lor_def Let_def) (simp add: js_def)
  have b: "(if message v8_text (Error (js ''LLM unavailable'')) = []
       then js ''Failed to run agent.''
       else message v8_text (Error (js ''LLM unavailable''))) = js ''LLM unavailable''"
    by (simp add: js_def)
  from failed_run_reported [OF a, of v8_text initialState] a b show ?thesis by simp
qed

text \<open>
  C2, as stated, fails. After a first run that went through, the page shows its log,
  summary and draft. A second run whose response is an error, even one that carries the
  log and the summary gathered before the failure, leaves the page with an empty log, an
  empty summary and an empty draft.
\<close>

theorem failed_run_shows_no_artifacts:
  "logLines (run_events any_url v8_text [Submit, Settle (Inr good_response)] initialState) =
     Arr [Str (js ''Searching for company news...'')] \<and>
   logLines (handleSubmit v8_text (Inr failed_response)
     (run_events any_url v8_text [Submit, Settle (Inr good_response)] initialState)) = Arr [] \<and>
   summary (handleSubmit v8_text (Inr failed_response)
     (run_events any_url v8_text [Submit, Settle (Inr good_response)] initialState)) = Str [] \<and>
   emailDraft (handleSubmit v8_text (Inr failed_response)
     (run_events any_url v8_text [Submit, Settle (Inr good_response)] initialState)) = Str []"
  unfolding good_run
  by (simp add: handleSubmit_def handleSubmit_begin_def handleSubmit_settle_def
      handleSubmit_try_def runAgent_def failed_response_def lor_def js_def Let_def)

text \<open>
  C2, amended: when the backend call raises, the \<open>catch\<close> and \<open>finally\<close> blocks change
  the error text, the status and the submitting flag only: log, summary, draft, form and
  send message are what they were just before. What they were is what the start of the run
  left (an empty log, summary and draft) unless the operator typed a draft meanwhile.
\<close>

theorem failure_keeps_state:
  "logLines (handleSubmit_settle tm (Inl e) s) = logLines s \<and>
   summary (handleSubmit_settle tm (Inl e) s) = summary s \<and>
   emailDraft (handleSubmit_settle tm (Inl e) s) = emailDraft s \<and>
   form (handleSubmit_settle tm (Inl e) s) = form s \<and>
   sendMessage (handleSubmit_settle tm (Inl e) s) = sendMessage s \<and>
   logLines (handleSubmit_settle tm (Inl e) (handleSubmit_begin s)) = Arr [] \<and>
   summary (handleSubmit_settle tm (Inl e) (handleSubmit_begin s)) = Str [] \<and>
   emailDraft (handleSubmit_settle tm (Inl e) (handleSubmit_begin s)) = Str []"
  by (simp add: settle_failure handleSubmit_begin_def)

section \<open>Input validation\<close>

text \<open>
  C3: when the company field is empty, the form fails the validity check the browser
  makes at submission (the field is \<open>required\<close>): the input is invalid and the
  submission is refused before \<open>handleSubmit\<close> is called, so no request is made and no
  stage runs. The state is left as it was: the submission emits no trace line, and on a
  page whose log was empty the log is empty afterwards.
\<close>

theorem empty_company_blocked:
  "company (form s) = [] \<Longrightarrow>
     checkValidity vu (form s) = False \<and>
     submitForm vu s = None \<and>
     step vu tm Submit s = s \<and>
     logLines (step vu tm Submit s) = logLines s \<and>
     (logLines s = Arr [] \<longrightarrow> logLines (step vu tm Submit s) = Arr [])"
  by (simp add: submitForm_def checkValidity_def)

theorem empty_company_blocked_witness:
  "company (form (handleChange Company [] initialState)) = [] \<and>
   checkValidity any_url (form (handleChange Company [] initialState)) = False \<and>
   submitForm any_url (handleChange Company [] initialState) = None \<and>
   step any_url v8_text Submit (handleChange Company [] initialState) =
     handleChange Company [] initialState \<and>
   logLines (step any_url v8_text Submit (handleChange Company [] initialState)) = Arr []"
proof -
  have a: "company (form (handleChange Company [] initialState)) = []" by simp
  have b: "logLines (handleChange Company [] initialState) = Arr []"
    by (simp add: initialState_def)
  from empty_company_blocked [OF a, of any_url v8_text] a b show ?thesis by simp
qed

section \<open>The errors of runAgent\<close>



section \<open>The workflow core\<close>

text \<open>
  C6: on a run that awaits approval, a decision that does not approve makes the run
  \<open>Rejected\<close>, with outcome \<open>rejected\<close>; the send stage is not invoked (nothing is
  delivered); the draft is the one the draft stage left, also when the decision carries
  an edited draft; and the run is terminal: no later decision changes it.
\<close>

theorem rejection_is_terminal:
  "run_stage r = AwaitingApproval \<Longrightarrow> is_approved d = False \<Longrightarrow>
     run_stage (deliver_decision line d r) = Rejected \<and>
     run_outcome (deliver_decision line d r) = rejected \<and>
     run_emailDraft (deliver_decision line d r) = run_emailDraft r \<and>
     delivered (deliver_decision line d r) = delivered r \<and>
     deliver_decision line d' (deliver_decision line d r) = deliver_decision line d r"
  by (simp add: deliver_decision_def)

theorem rejection_is_terminal_witness:
  "run_stage awaiting_run = AwaitingApproval \<and>
   is_approved \<lparr>is_approved = False, editedEmailDraft = Some ''Edited''\<rparr> = False \<and>
   run_stage (deliver_decision stage_line
      \<lparr>is_approved = False, editedEmailDraft = Some ''Edited''\<rparr> awaiting_run) = Rejected \<and>
   run_emailDraft (deliver_decision stage_line
      \<lparr>is_approved = False, editedEmailDraft = Some ''Edited''\<rparr> awaiting_run) =
     Some ''Hi Acme Corp'' \<and>
   delivered (deliver_decision stage_line
      \<lparr>is_approved = False, editedEmailDraft = Some ''Edited''\<rparr> awaiting_run) = []"
proof -
  have a: "run_stage awaiting_run = AwaitingApproval" by (simp add: awaiting_run_def)
  have b: "is_approved \<lparr>is_approved = False, editedEmailDraft = Some ''Edited''\<rparr> = False"
    by simp
  from rejection_is_terminal [OF a b, of stage_line] a b show ?thesis
    by (simp add: awaiting_run_def)
qed

text \<open>
  C7: whichever of the two queries completes first, the search stage leaves the news
  entry before the overview entry in the context, and \<open>renderForPrompt\<close> gives the same
  text for both orders: the news entry, then the overview entry.
\<close>

theorem news_before_overview:
  "search_stage [(NewsQuery, n), (OverviewQuery, v)] [] =
     [(''search:news'', n), (''search:about'', v)] \<and>
   search_stage [(OverviewQuery, v), (NewsQuery, n)] [] =
     [(''search:news'', n), (''search:about'', v)] \<and>
   renderForPrompt header budget (search_stage [(OverviewQuery, v), (NewsQuery, n)] []) =
     renderForPrompt header budget (search_stage [(NewsQuery, n), (OverviewQuery, v)] []) \<and>
   renderForPrompt header budget (search_stage [(NewsQuery, n), (OverviewQuery, v)] []) =
     (header ''search:news'' @ take (budget ''search:news'') n) @
     (header ''search:about'' @ take (budget ''search:about'') v)"
  by (simp add: search_stage_def merge_query_def renderForPrompt_def)

end
